theory Spec2Isabelle
  imports Main "HOL-Library.AList"
begin

section \<open>JavaScript values, objects and the heap\<close>

text \<open>
  The client of \<^verbatim>\<open>textapi.js\<close> handles plain JavaScript data: per-call parameters are
  either a string or an object whose fields hold strings, numbers, booleans or arrays
  (the \<^verbatim>\<open>class\<close> list of \<^verbatim>\<open>unsupervisedClassify\<close>).
\<close>

datatype jsval =
    JUndefined
  | JNull
  | JBool bool
  | JNum int
  | JStr string
  | JArr "jsval list"

text \<open>JavaScript's conversion to boolean, as used by \<^verbatim>\<open>if (params.text && !params.html)\<close>.\<close>

fun truthy :: "jsval \<Rightarrow> bool" where
  "truthy JUndefined = False"
| "truthy JNull = False"
| "truthy (JBool b) = b"
| "truthy (JNum n) = (n \<noteq> 0)"
| "truthy (JStr s) = (s \<noteq> [])"
| "truthy (JArr xs) = True"

text \<open>
  An object is its list of fields in insertion order; reading goes through \<open>map_of\<close>, so a
  field name occurs at most once as far as any reader can tell. Reading an absent field
  gives \<^verbatim>\<open>undefined\<close>; assignment overwrites the field in place or appends it;
  \<^verbatim>\<open>delete\<close> removes it.
\<close>

type_synonym jsobj = "(string \<times> jsval) list"

definition get_prop :: "jsobj \<Rightarrow> string \<Rightarrow> jsval" where
  "get_prop ob k = (case map_of ob k of None \<Rightarrow> JUndefined | Some v \<Rightarrow> v)"

definition set_prop :: "jsobj \<Rightarrow> string \<Rightarrow> jsval \<Rightarrow> jsobj" where
  "set_prop ob k v = AList.update k v ob"

definition delete_prop :: "jsobj \<Rightarrow> string \<Rightarrow> jsobj" where
  "delete_prop ob k = AList.delete k ob"

text \<open>
  Objects are passed by reference, and several claims are about which object a call
  writes to. The heap is the list of all objects allocated so far; an address is an index
  into it, and an object literal allocates at the end.
\<close>

type_synonym addr = nat
type_synonym heap = "jsobj list"

definition alloc :: "heap \<Rightarrow> jsobj \<Rightarrow> addr \<times> heap" where
  "alloc h ob = (length h, h @ [ob])"

definition heap_set :: "heap \<Rightarrow> addr \<Rightarrow> string \<Rightarrow> jsval \<Rightarrow> heap" where
  "heap_set h a k v = h[a := set_prop (h ! a) k v]"

definition heap_delete :: "heap \<Rightarrow> addr \<Rightarrow> string \<Rightarrow> heap" where
  "heap_delete h a k = h[a := delete_prop (h ! a) k]"

definition heap_get :: "heap \<Rightarrow> addr \<Rightarrow> string \<Rightarrow> jsval" where
  "heap_get h a k = get_prop (h ! a) k"

text \<open>
  How the merge helper the client is linked with treats its first argument. The helper's
  file is not among the sources and the specification does not settle this point, so both
  ways are modelled: \<open>InPlace\<close> writes the merge into the first argument and returns that
  same object; \<open>Copying\<close> leaves it alone and returns a new object.
\<close>

datatype extend_mode = InPlace | Copying

text \<open>
  The client instance: the reference \<^verbatim>\<open>this._options\<close>, and the \<^verbatim>\<open>util\<close> module its
  methods close over, of which only the mode of \<^verbatim>\<open>extend\<close> matters.
\<close>

record client =
  options :: addr
  util_mode :: extend_mode

text \<open>
  The per-call argument: a bare string or a reference to the caller's object. These are
  the two shapes the specification gives a call's input, and \<^verbatim>\<open>params\<close> is documented
  as an object. Any other value would go unexamined to the merge helper in the last line
  of \<^verbatim>\<open>normalizeParams\<close>; what the helper does with it is not in the sources.
\<close>

datatype call_input = Str string | Ref addr

text \<open>
  A call is well-formed when every reference it involves points into the heap: the
  client's \<^verbatim>\<open>_options\<close> and, for an object argument, the argument itself. The two may
  be the same object.
\<close>

fun input_ok :: "heap \<Rightarrow> call_input \<Rightarrow> bool" where
  "input_ok h (Str s) = True"
| "input_ok h (Ref p) = (p < length h)"


section \<open>The merge helper\<close>

text \<open>
  Modelled from the spec: \<^verbatim>\<open>util.extend\<close> of \<^verbatim>\<open>lib/util.js\<close>, which is not among the
  sources. The specification describes the merge \<^verbatim>\<open>util.extend(param, this._options)\<close>
  as: the fields of the first argument take precedence on key collision, the fields of the
  second argument fill in anything absent, and the second argument is not modified. It
  does not say where the merged fields are stored; that is the parameter \<open>extend_mode\<close>.
  In neither mode is the second argument written.
\<close>

definition fill_in :: "jsobj \<Rightarrow> string \<times> jsval \<Rightarrow> jsobj" where
  "fill_in ob kv = (if map_of ob (fst kv) = None then ob @ [kv] else ob)"

definition extend_obj :: "jsobj \<Rightarrow> jsobj \<Rightarrow> jsobj" where
  "extend_obj origin add = foldl fill_in origin add"

definition util_extend :: "extend_mode \<Rightarrow> heap \<Rightarrow> addr \<Rightarrow> addr \<Rightarrow> addr \<times> heap" where
  "util_extend u h origin add =
     (case u of
        InPlace \<Rightarrow> (origin, h[origin := extend_obj (h ! origin) (h ! add)])
      | Copying \<Rightarrow> alloc h (extend_obj (h ! origin) (h ! add)))"


section \<open>The client and its normalizer\<close>

text \<open>
  \<^verbatim>\<open>this._options = options || {}\<close>: the client keeps a reference to the object it was
  constructed with, or to a fresh empty object when none was given.
\<close>

definition AYLIENTextAPI :: "extend_mode \<Rightarrow> heap \<Rightarrow> addr option \<Rightarrow> client \<times> heap" where
  "AYLIENTextAPI u h opts =
     (case opts of
        Some a \<Rightarrow> (\<lparr>options = a, util_mode = u\<rparr>, h)
      | None \<Rightarrow> (let (a, h1) = alloc h [] in (\<lparr>options = a, util_mode = u\<rparr>, h1)))"

text \<open>
  \<^verbatim>\<open>param.match('^https?://')\<close>: the string is compiled to a regular expression without
  flags, anchored at the start of the input: the literal \<^verbatim>\<open>http\<close>, an optional
  \<^verbatim>\<open>s\<close>, the literal \<^verbatim>\<open>://\<close>.
\<close>

definition url_pattern :: "string \<Rightarrow> bool" where
  "url_pattern param = (take 7 param = ''http://'' \<or> take 8 param = ''https://'')"

fun normalizeParams :: "client \<Rightarrow> heap \<Rightarrow> call_input \<Rightarrow> addr \<times> heap" where
  "normalizeParams this h (Str param) =
     (if url_pattern param
      then (let (lit, h1) = alloc h [(''url'', JStr param)]
            in util_extend (util_mode this) h1 lit (options this))
      else (let (lit, h1) = alloc h [(''text'', JStr param)]
            in util_extend (util_mode this) h1 lit (options this)))"
| "normalizeParams this h (Ref param) = util_extend (util_mode this) h param (options this)"

text \<open>
  The expression every operation starts with:
  \<^verbatim>\<open>util.extend({endpoint: name}, this.normalizeParams(params))\<close>. The object literal is
  evaluated first, then the normalizer, then the merge with the literal as first argument.
\<close>

definition with_endpoint :: "string \<Rightarrow> client \<Rightarrow> heap \<Rightarrow> call_input \<Rightarrow> addr \<times> heap" where
  "with_endpoint name this h params =
     (let (lit, h1) = alloc h [(''endpoint'', JStr name)];
          (np, h2) = normalizeParams this h1 params
      in util_extend (util_mode this) h2 lit np)"


section \<open>The dispatcher\<close>

text \<open>
  A requirement rule, as the operations write it: a string is a plain field name, an array
  at the top level is a sequence of sub-rules, and an array inside that sequence is a group
  of alternative field names. So \<^verbatim>\<open>[['text', 'url'], 'class']\<close> is
  \<open>AllOf [Alternatives [''text'', ''url''], Field ''class'']\<close>, \<^verbatim>\<open>'url'\<close> is
  \<open>Field ''url''\<close> and \<^verbatim>\<open>[]\<close> is \<open>AllOf []\<close>.
\<close>

datatype rule =
    Field string
  | Alternatives "string list"
  | AllOf "rule list"

text \<open>
  Errors handed to the callback: \<^verbatim>\<open>new Error(message)\<close> as \<^verbatim>\<open>summarize\<close> builds it,
  and the three kinds the dispatcher produces. A validation error carries the names of the
  fields whose absence made the rule fail.
\<close>

datatype js_error =
    Error string
  | ValidationError "string list"
  | TransportError string
  | DecodeError

text \<open>
  What goes to the network layer: the endpoint the path ends with, whether the connection
  is secure, the two credentials sent as headers, and the form entries of the body.
\<close>

record request =
  req_endpoint :: jsval
  req_secure :: bool
  req_application_id :: jsval
  req_application_key :: jsval
  req_form :: "(string \<times> jsval) list"

text \<open>
  The world outside the client: what the transport answers to a request (a connection
  failure or a response body) and how a body decodes as JSON (\<open>None\<close> when it does not
  parse). The transport is taken to complete every request.
\<close>

datatype transport_result = Failure string | Response string

record net =
  transport :: "request \<Rightarrow> transport_result"
  json_parse :: "string \<Rightarrow> jsval option"

text \<open>
  The observable trace of a call, in order: the dispatcher being entered with a parameter
  object and a rule, a request being handed to the network layer, the completion
  callback being invoked with its \<^verbatim>\<open>error\<close> and \<^verbatim>\<open>result\<close> arguments (\<open>None\<close> for an
  argument that is \<^verbatim>\<open>null\<close> or not passed), and an error leaving the call by
  \<^verbatim>\<open>throw\<close> instead of through the callback.
\<close>

datatype event =
    Dispatch jsobj rule
  | Network request
  | Callback "js_error option" "jsval option"
  | Throw js_error

fun is_dispatch :: "event \<Rightarrow> bool" where
  "is_dispatch (Dispatch ps r) = True"
| "is_dispatch e = False"

fun is_network :: "event \<Rightarrow> bool" where
  "is_network (Network rq) = True"
| "is_network e = False"



text \<open>
  Modelled from the spec: the validation step of \<^verbatim>\<open>createAPIRequest\<close> in
  \<^verbatim>\<open>lib/apirequest.js\<close>, which is not among the sources. A plain field name is satisfied
  iff the parameters contain that key with a non-empty value; a group of alternatives iff
  at least one alternative is present and non-empty; a sequence iff every sub-rule is
  satisfied, so the empty sequence always is. A value is empty when it is
  \<^verbatim>\<open>undefined\<close>, \<^verbatim>\<open>null\<close>, the empty string or the empty array.
\<close>

fun non_empty :: "jsval \<Rightarrow> bool" where
  "non_empty JUndefined = False"
| "non_empty JNull = False"
| "non_empty (JStr s) = (s \<noteq> [])"
| "non_empty (JArr xs) = (xs \<noteq> [])"
| "non_empty v = True"

definition present :: "jsobj \<Rightarrow> string \<Rightarrow> bool" where
  "present ps k = (case map_of ps k of None \<Rightarrow> False | Some v \<Rightarrow> non_empty v)"

fun satisfied :: "jsobj \<Rightarrow> rule \<Rightarrow> bool" where
  "satisfied ps (Field k) = present ps k"
| "satisfied ps (Alternatives ks) = list_ex (present ps) ks"
| "satisfied ps (AllOf rs) = list_all (satisfied ps) rs"

text \<open>
  Modelled from the spec: the error text of a failed validation names the missing or
  alternative fields; here, the names of every sub-rule that is not satisfied.
\<close>

fun missing :: "jsobj \<Rightarrow> rule \<Rightarrow> string list" where
  "missing ps (Field k) = (if present ps k then [] else [k])"
| "missing ps (Alternatives ks) = (if list_ex (present ps) ks then [] else ks)"
| "missing ps (AllOf rs) = concat (map (missing ps) rs)"

text \<open>
  Modelled from the spec: serialization in \<^verbatim>\<open>createAPIRequest\<close>. The parameters are
  form-encoded, an array-valued field as repeated entries under the same name; the
  endpoint names the path; the credentials go into two headers; the connection is secure
  unless the configuration says otherwise.
\<close>

fun form_entries :: "string \<times> jsval \<Rightarrow> (string \<times> jsval) list" where
  "form_entries (k, JArr xs) = map (Pair k) xs"
| "form_entries (k, v) = [(k, v)]"

definition serialize :: "jsobj \<Rightarrow> (string \<times> jsval) list" where
  "serialize ps = concat (map form_entries ps)"

definition build_request :: "jsobj \<Rightarrow> request" where
  "build_request ps =
     \<lparr> req_endpoint = get_prop ps ''endpoint'',
       req_secure = (case map_of ps ''https'' of None \<Rightarrow> True | Some v \<Rightarrow> truthy v),
       req_application_id = get_prop ps ''application_id'',
       req_application_key = get_prop ps ''application_key'',
       req_form = serialize ps \<rparr>"

text \<open>
  Modelled from the spec: \<^verbatim>\<open>createAPIRequest(params, rule, callback)\<close> of
  \<^verbatim>\<open>lib/apirequest.js\<close>. Validation failure calls back at once with the error and no
  result, without any request. Otherwise exactly one request is issued; a transport
  failure, a body that does not parse, and a decoded body each call back once, the decoded
  body as the result whatever the status code was.
\<close>

definition respond :: "net \<Rightarrow> request \<Rightarrow> event" where
  "respond nw rq =
     (case transport nw rq of
        Failure e \<Rightarrow> Callback (Some (TransportError e)) None
      | Response body \<Rightarrow>
          (case json_parse nw body of
             None \<Rightarrow> Callback (Some DecodeError) None
           | Some v \<Rightarrow> Callback None (Some v)))"

definition createAPIRequest :: "net \<Rightarrow> heap \<Rightarrow> addr \<Rightarrow> rule \<Rightarrow> event list" where
  "createAPIRequest nw h params r =
     (let ps = h ! params in
      Dispatch ps r #
      (if \<not> satisfied ps r
       then [Callback (Some (ValidationError (missing ps r))) None]
       else [Network (build_request ps), respond nw (build_request ps)]))"


section \<open>The operations\<close>

text \<open>
  Each operation takes the network, the client, the heap and the call's argument, and
  returns the heap it leaves behind and the trace of the call. The rules are the literals
  of the source.
\<close>

definition sentiment :: "net \<Rightarrow> client \<Rightarrow> heap \<Rightarrow> call_input \<Rightarrow> heap \<times> event list" where
  "sentiment nw this h params =
     (let (ps, h1) = with_endpoint ''sentiment'' this h params
      in (h1, createAPIRequest nw h1 ps (AllOf [Alternatives [''text'', ''url'']])))"

text \<open>
  \<^verbatim>\<open>if (params.text && !params.html) { params.html = params.text; delete(params.text); }\<close>
  and the same with \<^verbatim>\<open>phrase\<close> in \<^verbatim>\<open>related\<close>.
\<close>

definition rename_text :: "string \<Rightarrow> heap \<Rightarrow> addr \<Rightarrow> heap" where
  "rename_text field h ps =
     (if truthy (heap_get h ps ''text'') \<and> \<not> truthy (heap_get h ps field)
      then heap_delete (heap_set h ps field (heap_get h ps ''text'')) ps ''text''
      else h)"

definition extract_params :: "client \<Rightarrow> heap \<Rightarrow> call_input \<Rightarrow> addr \<times> heap" where
  "extract_params this h params =
     (let (ps, h1) = with_endpoint ''extract'' this h params
      in (ps, rename_text ''html'' h1 ps))"

text \<open>The operation \<^verbatim>\<open>extract\<close>; the name alone is reserved by the proof language.\<close>

definition extract' :: "net \<Rightarrow> client \<Rightarrow> heap \<Rightarrow> call_input \<Rightarrow> heap \<times> event list" where
  "extract' nw this h params =
     (let (ps, h2) = extract_params this h params
      in (h2, createAPIRequest nw h2 ps (AllOf [Alternatives [''url'', ''html'']])))"

definition language :: "net \<Rightarrow> client \<Rightarrow> heap \<Rightarrow> call_input \<Rightarrow> heap \<times> event list" where
  "language nw this h params =
     (let (ps, h1) = with_endpoint ''language'' this h params
      in (h1, createAPIRequest nw h1 ps (AllOf [Alternatives [''text'', ''url'']])))"

definition classify :: "net \<Rightarrow> client \<Rightarrow> heap \<Rightarrow> call_input \<Rightarrow> heap \<times> event list" where
  "classify nw this h params =
     (let (ps, h1) = with_endpoint ''classify'' this h params
      in (h1, createAPIRequest nw h1 ps (AllOf [Alternatives [''text'', ''url'']])))"

definition unsupervisedClassify ::
  "net \<Rightarrow> client \<Rightarrow> heap \<Rightarrow> call_input \<Rightarrow> heap \<times> event list" where
  "unsupervisedClassify nw this h params =
     (let (ps, h1) = with_endpoint ''classify/unsupervised'' this h params
      in (h1, createAPIRequest nw h1 ps
                (AllOf [Alternatives [''text'', ''url''], Field ''class''])))"

definition concepts :: "net \<Rightarrow> client \<Rightarrow> heap \<Rightarrow> call_input \<Rightarrow> heap \<times> event list" where
  "concepts nw this h params =
     (let (ps, h1) = with_endpoint ''concepts'' this h params
      in (h1, createAPIRequest nw h1 ps (AllOf [Alternatives [''text'', ''url'']])))"

definition entities :: "net \<Rightarrow> client \<Rightarrow> heap \<Rightarrow> call_input \<Rightarrow> heap \<times> event list" where
  "entities nw this h params =
     (let (ps, h1) = with_endpoint ''entities'' this h params
      in (h1, createAPIRequest nw h1 ps (AllOf [Alternatives [''text'', ''url'']])))"

definition hashtags :: "net \<Rightarrow> client \<Rightarrow> heap \<Rightarrow> call_input \<Rightarrow> heap \<times> event list" where
  "hashtags nw this h params =
     (let (ps, h1) = with_endpoint ''hashtags'' this h params
      in (h1, createAPIRequest nw h1 ps (AllOf [Alternatives [''text'', ''url'']])))"

text \<open>
  \<^verbatim>\<open>if (!params.url && (!params.text || !params.title)) callback(new Error(...))\<close>:
  the callback gets the error as its only argument and the dispatcher is not called.
\<close>

definition summarize_precondition :: "heap \<Rightarrow> addr \<Rightarrow> bool" where
  "summarize_precondition h ps =
     (\<not> (\<not> truthy (heap_get h ps ''url'') \<and>
         (\<not> truthy (heap_get h ps ''text'') \<or> \<not> truthy (heap_get h ps ''title''))))"

definition summarize :: "net \<Rightarrow> client \<Rightarrow> heap \<Rightarrow> call_input \<Rightarrow> heap \<times> event list" where
  "summarize nw this h params =
     (let (ps, h1) = with_endpoint ''summarize'' this h params
      in if \<not> summarize_precondition h1 ps
         then (h1, [Callback
                      (Some (Error ''You must either provide url, or pair of text and title''))
                      None])
         else (h1, createAPIRequest nw h1 ps (AllOf [])))"

definition related_params :: "client \<Rightarrow> heap \<Rightarrow> call_input \<Rightarrow> addr \<times> heap" where
  "related_params this h params =
     (let (ps, h1) = with_endpoint ''related'' this h params
      in (ps, rename_text ''phrase'' h1 ps))"

definition related :: "net \<Rightarrow> client \<Rightarrow> heap \<Rightarrow> call_input \<Rightarrow> heap \<times> event list" where
  "related nw this h params =
     (let (ps, h2) = related_params this h params
      in (h2, createAPIRequest nw h2 ps (Field ''phrase'')))"

definition microformats :: "net \<Rightarrow> client \<Rightarrow> heap \<Rightarrow> call_input \<Rightarrow> heap \<times> event list" where
  "microformats nw this h params =
     (let (ps, h1) = with_endpoint ''microformats'' this h params
      in (h1, createAPIRequest nw h1 ps (Field ''url'')))"

definition imageTags :: "net \<Rightarrow> client \<Rightarrow> heap \<Rightarrow> call_input \<Rightarrow> heap \<times> event list" where
  "imageTags nw this h params =
     (let (ps, h1) = with_endpoint ''image-tags'' this h params
      in (h1, createAPIRequest nw h1 ps (Field ''url'')))"


text \<open>
  The methods the constructor assigns to the client that take a callback, and the call of
  one of them by name.
\<close>

datatype operation =
    Sentiment
  | Extract
  | Language
  | Classify
  | UnsupervisedClassify
  | Concepts
  | Entities
  | Hashtags
  | Summarize
  | Related
  | Microformats
  | ImageTags

definition all_operations :: "operation list" where
  "all_operations =
     [Sentiment, Extract, Language, Classify, UnsupervisedClassify, Concepts, Entities,
      Hashtags, Summarize, Related, Microformats, ImageTags]"

fun method_name :: "operation \<Rightarrow> string" where
  "method_name Sentiment = ''sentiment''"
| "method_name Extract = ''extract''"
| "method_name Language = ''language''"
| "method_name Classify = ''classify''"
| "method_name UnsupervisedClassify = ''unsupervisedClassify''"
| "method_name Concepts = ''concepts''"
| "method_name Entities = ''entities''"
| "method_name Hashtags = ''hashtags''"
| "method_name Summarize = ''summarize''"
| "method_name Related = ''related''"
| "method_name Microformats = ''microformats''"
| "method_name ImageTags = ''imageTags''"

fun call :: "operation \<Rightarrow> net \<Rightarrow> client \<Rightarrow> heap \<Rightarrow> call_input \<Rightarrow> heap \<times> event list" where
  "call Sentiment = sentiment"
| "call Extract = extract'"
| "call Language = language"
| "call Classify = classify"
| "call UnsupervisedClassify = unsupervisedClassify"
| "call Concepts = concepts"
| "call Entities = entities"
| "call Hashtags = hashtags"
| "call Summarize = summarize"
| "call Related = related"
| "call Microformats = microformats"
| "call ImageTags = imageTags"

text \<open>The object a call returns a reference to, read from the heap the call leaves.\<close>

definition result_obj :: "addr \<times> heap \<Rightarrow> jsobj" where
  "result_obj r = snd r ! fst r"


section \<open>The operation catalog\<close>

text \<open>
  The specification's view of an operation, to be compared with the methods above: an
  endpoint name (the one default the operation overrides), a requirement rule, an optional
  field that \<^verbatim>\<open>text\<close> is renamed to before validation, and whether the hand-written
  precondition of \<^verbatim>\<open>summarize\<close> guards the dispatch. The entries are read off the source.
\<close>

record descr =
  endpoint_name :: string
  rename_to :: "string option"
  precondition :: bool
  requirement_rule :: rule

fun catalog :: "operation \<Rightarrow> descr" where
  "catalog Sentiment =
     \<lparr>endpoint_name = ''sentiment'', rename_to = None, precondition = False,
      requirement_rule = AllOf [Alternatives [''text'', ''url'']]\<rparr>"
| "catalog Extract =
     \<lparr>endpoint_name = ''extract'', rename_to = Some ''html'', precondition = False,
      requirement_rule = AllOf [Alternatives [''url'', ''html'']]\<rparr>"
| "catalog Language =
     \<lparr>endpoint_name = ''language'', rename_to = None, precondition = False,
      requirement_rule = AllOf [Alternatives [''text'', ''url'']]\<rparr>"
| "catalog Classify =
     \<lparr>endpoint_name = ''classify'', rename_to = None, precondition = False,
      requirement_rule = AllOf [Alternatives [''text'', ''url'']]\<rparr>"
| "catalog UnsupervisedClassify =
     \<lparr>endpoint_name = ''classify/unsupervised'', rename_to = None, precondition = False,
      requirement_rule = AllOf [Alternatives [''text'', ''url''], Field ''class'']\<rparr>"
| "catalog Concepts =
     \<lparr>endpoint_name = ''concepts'', rename_to = None, precondition = False,
      requirement_rule = AllOf [Alternatives [''text'', ''url'']]\<rparr>"
| "catalog Entities =
     \<lparr>endpoint_name = ''entities'', rename_to = None, precondition = False,
      requirement_rule = AllOf [Alternatives [''text'', ''url'']]\<rparr>"
| "catalog Hashtags =
     \<lparr>endpoint_name = ''hashtags'', rename_to = None, precondition = False,
      requirement_rule = AllOf [Alternatives [''text'', ''url'']]\<rparr>"
| "catalog Summarize =
     \<lparr>endpoint_name = ''summarize'', rename_to = None, precondition = True,
      requirement_rule = AllOf []\<rparr>"
| "catalog Related =
     \<lparr>endpoint_name = ''related'', rename_to = Some ''phrase'', precondition = False,
      requirement_rule = Field ''phrase''\<rparr>"
| "catalog Microformats =
     \<lparr>endpoint_name = ''microformats'', rename_to = None, precondition = False,
      requirement_rule = Field ''url''\<rparr>"
| "catalog ImageTags =
     \<lparr>endpoint_name = ''image-tags'', rename_to = None, precondition = False,
      requirement_rule = Field ''url''\<rparr>"

definition run_descr :: "descr \<Rightarrow> net \<Rightarrow> client \<Rightarrow> heap \<Rightarrow> call_input \<Rightarrow> heap \<times> event list" where
  "run_descr d nw this h params =
     (let (ps, h1) = with_endpoint (endpoint_name d) this h params;
          h2 = (case rename_to d of None \<Rightarrow> h1 | Some field \<Rightarrow> rename_text field h1 ps)
      in if precondition d \<and> \<not> summarize_precondition h2 ps
         then (h2, [Callback
                      (Some (Error ''You must either provide url, or pair of text and title''))
                      None])
         else (h2, createAPIRequest nw h2 ps (requirement_rule d)))"


section \<open>Concrete inputs\<close>

text \<open>
  A configuration with the two credentials, a client constructed with it at address 0
  under either mode of the merge helper, a network that is down, and one that answers
  every request with a body that decodes.
\<close>

definition demo_config :: jsobj where
  "demo_config = [(''application_id'', JStr ''id''), (''application_key'', JStr ''key'')]"

definition demo_client :: client where
  "demo_client = \<lparr>options = 0, util_mode = InPlace\<rparr>"


definition offline :: net where
  "offline = \<lparr>transport = (\<lambda>rq. Failure ''ECONNREFUSED''), json_parse = (\<lambda>body. None)\<rparr>"

definition online :: net where
  "online = \<lparr>transport = (\<lambda>rq. Response ''{}''), json_parse = (\<lambda>body. Some (JStr body))\<rparr>"


section \<open>Properties of the merge\<close>

lemma map_of_fill_in:
  "map_of (fill_in ob kv) k =
     (case map_of ob k of Some v \<Rightarrow> Some v
      | None \<Rightarrow> (if k = fst kv then Some (snd kv) else None))"
  by (cases kv) (auto simp: fill_in_def map_add_def split: option.splits)

lemma map_of_extend_obj:
  "map_of (extend_obj origin add) k =
     (case map_of origin k of Some v \<Rightarrow> Some v | None \<Rightarrow> map_of add k)"
  unfolding extend_obj_def
proof (induction add arbitrary: origin)
  case Nil
  then show ?case by (simp split: option.splits)
next
  case (Cons kv add)
  show ?case
    by (cases kv) (simp add: Cons.IH map_of_fill_in split: option.splits)
qed

lemma extend_obj_self_aux: "set add \<subseteq> set ob \<Longrightarrow> foldl fill_in ob add = ob"
proof (induction add)
  case Nil
  then show ?case by simp
next
  case (Cons kv add)
  from Cons.prems have "kv \<in> set ob" by simp
  then have "fst kv \<in> fst ` set ob" by (rule imageI)
  then have "map_of ob (fst kv) \<noteq> None" by (simp add: map_of_eq_None_iff)
  then have "fill_in ob kv = ob" by (simp add: fill_in_def)
  with Cons show ?case by simp
qed

lemma extend_obj_self: "extend_obj ob ob = ob"
  by (simp add: extend_obj_def extend_obj_self_aux)

lemma util_extend_InPlace:
  "util_extend InPlace h origin add = (origin, h[origin := extend_obj (h ! origin) (h ! add)])"
  by (simp add: util_extend_def)

lemma util_extend_Copying:
  "util_extend Copying h origin add = (length h, h @ [extend_obj (h ! origin) (h ! add)])"
  by (simp add: util_extend_def alloc_def)

lemma util_extend_length: "length h \<le> length (snd (util_extend u h origin add))"
  by (cases u) (simp_all add: util_extend_InPlace util_extend_Copying)

lemma util_extend_in_heap:
  assumes "origin < length h"
  shows "fst (util_extend u h origin add) < length (snd (util_extend u h origin add))"
  using assms by (cases u) (simp_all add: util_extend_InPlace util_extend_Copying)

lemma util_extend_result:
  assumes "origin < length h"
  shows "result_obj (util_extend u h origin add) = extend_obj (h ! origin) (h ! add)"
  using assms
  by (cases u) (simp_all add: util_extend_InPlace util_extend_Copying result_obj_def)

lemma util_extend_take:
  assumes "n \<le> origin" and "origin < length h"
  shows "take n (snd (util_extend u h origin add)) = take n h"
  using assms by (cases u) (simp_all add: util_extend_InPlace util_extend_Copying)

lemma util_extend_fst:
  assumes "n \<le> origin" and "origin < length h"
  shows "n \<le> fst (util_extend u h origin add)"
  using assms by (cases u) (simp_all add: util_extend_InPlace util_extend_Copying)


section \<open>What the normalizer returns\<close>

lemma AYLIENTextAPI_default:
  "AYLIENTextAPI u h None = (\<lparr>options = length h, util_mode = u\<rparr>, h @ [[]])"
  by (simp add: AYLIENTextAPI_def alloc_def)

lemma AYLIENTextAPI_demo:
  "AYLIENTextAPI InPlace [demo_config] (Some 0) = (demo_client, [demo_config])"
  by (simp add: AYLIENTextAPI_def demo_client_def)

lemma url_pattern_iff:
  "url_pattern s \<longleftrightarrow> (\<exists>rest. s = ''http://'' @ rest \<or> s = ''https://'' @ rest)"
proof
  assume "url_pattern s"
  then consider "take 7 s = ''http://''" | "take 8 s = ''https://''"
    by (auto simp: url_pattern_def)
  then show "\<exists>rest. s = ''http://'' @ rest \<or> s = ''https://'' @ rest"
  proof cases
    case 1
    have "s = take 7 s @ drop 7 s" by simp
    with 1 have "s = ''http://'' @ drop 7 s" by metis
    then show ?thesis by blast
  next
    case 2
    have "s = take 8 s @ drop 8 s" by simp
    with 2 have "s = ''https://'' @ drop 8 s" by metis
    then show ?thesis by blast
  qed
next
  assume "\<exists>rest. s = ''http://'' @ rest \<or> s = ''https://'' @ rest"
  then show "url_pattern s" by (auto simp: url_pattern_def)
qed

lemma normalizeParams_Ref:
  "normalizeParams this h (Ref p) = util_extend (util_mode this) h p (options this)"
  by simp

lemma normalizeParams_Str:
  "normalizeParams this h (Str s) =
     util_extend (util_mode this)
       (h @ [[(if url_pattern s then ''url'' else ''text'', JStr s)]]) (length h) (options this)"
  by (simp add: alloc_def)

declare normalizeParams.simps [simp del]


lemma result_obj_normalizeParams_Str:
  assumes "options this < length h"
  shows "result_obj (normalizeParams this h (Str s)) =
           extend_obj [(if url_pattern s then ''url'' else ''text'', JStr s)] (h ! options this)"
  using assms by (simp add: normalizeParams_Str util_extend_result nth_append)

lemma normalizeParams_length: "length h \<le> length (snd (normalizeParams this h i))"
proof (cases i)
  case (Str s)
  have "length (h @ [[(if url_pattern s then ''url'' else ''text'', JStr s)]]) \<le>
          length (snd (normalizeParams this h (Str s)))"
    unfolding normalizeParams_Str by (rule util_extend_length)
  then show ?thesis unfolding Str by simp
next
  case (Ref p)
  show ?thesis unfolding Ref normalizeParams_Ref by (rule util_extend_length)
qed

lemma normalizeParams_in_heap:
  assumes "input_ok h i"
  shows "fst (normalizeParams this h i) < length (snd (normalizeParams this h i))"
proof (cases i)
  case (Str s)
  show ?thesis unfolding Str normalizeParams_Str by (rule util_extend_in_heap) simp
next
  case (Ref p)
  with assms have "p < length h" by simp
  then show ?thesis unfolding Ref normalizeParams_Ref by (rule util_extend_in_heap)
qed

text \<open>
  Objects that existed before the call: the normalizer changes at most the caller's own
  object, and that only when the helper merges in place.
\<close>

lemma normalizeParams_take_Str:
  "take (length h) (snd (normalizeParams this h (Str s))) = h"
proof -
  have "take (length h) (snd (normalizeParams this h (Str s))) =
          take (length h) (h @ [[(if url_pattern s then ''url'' else ''text'', JStr s)]])"
    unfolding normalizeParams_Str by (rule util_extend_take) simp_all
  then show ?thesis by simp
qed

lemma normalizeParams_take_Ref:
  assumes "p < length h"
  shows "take (length h) (snd (normalizeParams this h (Ref p))) =
           (case util_mode this of
              InPlace \<Rightarrow> h[p := extend_obj (h ! p) (h ! options this)]
            | Copying \<Rightarrow> h)"
  using assms
  by (cases "util_mode this")
     (simp_all add: normalizeParams_Ref util_extend_InPlace util_extend_Copying)

lemma normalizeParams_options_unchanged:
  assumes "options this < length h" and "input_ok h i"
  shows "snd (normalizeParams this h i) ! options this = h ! options this"
proof -
  have "take (length h) (snd (normalizeParams this h i)) ! options this = h ! options this"
  proof (cases i)
    case (Str s)
    then show ?thesis by (simp only: normalizeParams_take_Str)
  next
    case (Ref p)
    with assms have p: "p < length h" by simp
    show ?thesis
      unfolding Ref normalizeParams_take_Ref [OF p] using p
      by (cases "util_mode this"; cases "p = options this")
         (simp_all add: extend_obj_self)
  qed
  then show ?thesis using assms(1) by simp
qed


section \<open>The parameter object of an operation\<close>

lemma with_endpoint_unfold:
  "with_endpoint name this h i =
     util_extend (util_mode this)
       (snd (normalizeParams this (h @ [[(''endpoint'', JStr name)]]) i)) (length h)
       (fst (normalizeParams this (h @ [[(''endpoint'', JStr name)]]) i))"
  by (simp add: with_endpoint_def alloc_def split: prod.splits)

lemma literal_in_heap:
  "length h < length (snd (normalizeParams this (h @ [[(''endpoint'', JStr name)]]) i))"
proof -
  have "length (h @ [[(''endpoint'', JStr name)]]) \<le>
          length (snd (normalizeParams this (h @ [[(''endpoint'', JStr name)]]) i))"
    by (rule normalizeParams_length)
  then show ?thesis by simp
qed

lemma with_endpoint_in_heap:
  "fst (with_endpoint name this h i) < length (snd (with_endpoint name this h i))"
  unfolding with_endpoint_unfold by (rule util_extend_in_heap) (rule literal_in_heap)

lemma with_endpoint_fst_ge: "length h \<le> fst (with_endpoint name this h i)"
  unfolding with_endpoint_unfold by (rule util_extend_fst) (simp, rule literal_in_heap)

lemma take_shorter:
  assumes "take (Suc n) xs = ys"
  shows "take n xs = take n ys"
proof -
  have "take n (take (Suc n) xs) = take n xs" by (simp add: min_def)
  with assms show ?thesis by simp
qed

lemma normalizeParams_take_literal:
  assumes "options this < length h" and "input_ok h i"
  shows "take (length h) (snd (normalizeParams this (h @ [lit]) i)) =
           take (length h) (snd (normalizeParams this h i))"
proof (cases i)
  case (Str s)
  have "take (Suc (length h)) (snd (normalizeParams this (h @ [lit]) (Str s))) = h @ [lit]"
    using normalizeParams_take_Str [of "h @ [lit]" this s] by simp
  then have "take (length h) (snd (normalizeParams this (h @ [lit]) (Str s))) =
               take (length h) (h @ [lit])"
    by (rule take_shorter)
  then show ?thesis unfolding Str by (simp add: normalizeParams_take_Str)
next
  case (Ref p)
  with assms have p: "p < length h" by simp
  then have p1: "p < length (h @ [lit])" by simp
  have "take (Suc (length h)) (snd (normalizeParams this (h @ [lit]) (Ref p))) =
          (case util_mode this of
             InPlace \<Rightarrow> (h @ [lit])[p := extend_obj ((h @ [lit]) ! p) ((h @ [lit]) ! options this)]
           | Copying \<Rightarrow> h @ [lit])"
    using normalizeParams_take_Ref [OF p1, of this] by simp
  then have "take (length h) (snd (normalizeParams this (h @ [lit]) (Ref p))) =
               take (length h)
                 (case util_mode this of
                    InPlace \<Rightarrow>
                      (h @ [lit])[p := extend_obj ((h @ [lit]) ! p) ((h @ [lit]) ! options this)]
                  | Copying \<Rightarrow> h @ [lit])"
    by (rule take_shorter)
  also have "\<dots> = (case util_mode this of
                      InPlace \<Rightarrow> h[p := extend_obj (h ! p) (h ! options this)]
                    | Copying \<Rightarrow> h)"
    using p assms(1)
    by (cases "util_mode this") (simp_all add: nth_append list_update_append)
  also have "\<dots> = take (length h) (snd (normalizeParams this h (Ref p)))"
    by (simp only: normalizeParams_take_Ref [OF p])
  finally show ?thesis unfolding Ref .
qed

lemma with_endpoint_take:
  assumes "options this < length h" and "input_ok h i"
  shows "take (length h) (snd (with_endpoint name this h i)) =
           take (length h) (snd (normalizeParams this h i))"
proof -
  have "take (length h) (snd (with_endpoint name this h i)) =
          take (length h) (snd (normalizeParams this (h @ [[(''endpoint'', JStr name)]]) i))"
    unfolding with_endpoint_unfold by (rule util_extend_take) (simp, rule literal_in_heap)
  then show ?thesis using assms by (simp only: normalizeParams_take_literal)
qed


section \<open>Every method is its catalog entry; what a call leaves on the heap\<close>

lemma call_run_descr: "call op = run_descr (catalog op)"
proof (cases op)
  case Sentiment
  then show ?thesis by (simp add: fun_eq_iff run_descr_def sentiment_def)
next
  case Extract
  then show ?thesis
    by (simp add: fun_eq_iff run_descr_def extract'_def extract_params_def Let_def
        split: prod.splits)
next
  case Language
  then show ?thesis by (simp add: fun_eq_iff run_descr_def language_def)
next
  case Classify
  then show ?thesis by (simp add: fun_eq_iff run_descr_def classify_def)
next
  case UnsupervisedClassify
  then show ?thesis by (simp add: fun_eq_iff run_descr_def unsupervisedClassify_def)
next
  case Concepts
  then show ?thesis by (simp add: fun_eq_iff run_descr_def concepts_def)
next
  case Entities
  then show ?thesis by (simp add: fun_eq_iff run_descr_def entities_def)
next
  case Hashtags
  then show ?thesis by (simp add: fun_eq_iff run_descr_def hashtags_def)
next
  case Summarize
  then show ?thesis
    by (simp add: fun_eq_iff run_descr_def summarize_def split: prod.splits)
next
  case Related
  then show ?thesis
    by (simp add: fun_eq_iff run_descr_def related_def related_params_def Let_def
        split: prod.splits)
next
  case Microformats
  then show ?thesis by (simp add: fun_eq_iff run_descr_def microformats_def)
next
  case ImageTags
  then show ?thesis by (simp add: fun_eq_iff run_descr_def imageTags_def)
qed

lemma rename_text_take:
  assumes "n \<le> ps"
  shows "take n (rename_text field h ps) = take n h"
  using assms by (simp add: rename_text_def heap_set_def heap_delete_def)

lemma fst_run_descr:
  "fst (run_descr d nw this h i) =
     (case rename_to d of
        None \<Rightarrow> snd (with_endpoint (endpoint_name d) this h i)
      | Some field \<Rightarrow>
          rename_text field (snd (with_endpoint (endpoint_name d) this h i))
            (fst (with_endpoint (endpoint_name d) this h i)))"
  by (simp add: run_descr_def Let_def split: prod.splits option.splits)

lemma run_descr_take:
  "take (length h) (fst (run_descr d nw this h i)) =
     take (length h) (snd (with_endpoint (endpoint_name d) this h i))"
  by (simp add: fst_run_descr with_endpoint_fst_ge rename_text_take split: option.splits)

lemma call_take:
  assumes "options this < length h" and "input_ok h i"
  shows "take (length h) (fst (call op nw this h i)) =
           take (length h) (snd (normalizeParams this h i))"
  using assms by (simp only: call_run_descr run_descr_take with_endpoint_take)

lemma nth_of_take: "a < n \<Longrightarrow> take n xs = take n ys \<Longrightarrow> xs ! a = ys ! a"
  by (metis nth_take)

lemma call_old_object:
  assumes "options this < length h" and "input_ok h i" and "a < length h"
  shows "fst (call op nw this h i) ! a = snd (normalizeParams this h i) ! a"
  using assms(3) call_take [OF assms(1,2)] by (rule nth_of_take)

lemma call_options_unchanged:
  assumes "options this < length h" and "input_ok h i"
  shows "fst (call op nw this h i) ! options this = h ! options this"
  using assms
  by (simp add: call_old_object normalizeParams_options_unchanged del: call.simps)


section \<open>The normalizer's merge\<close>





section \<open>Bare strings\<close>

text \<open>
  Claim C3. For a string argument that matches the URL pattern the output has \<^verbatim>\<open>url\<close>
  set to the string and no \<^verbatim>\<open>text\<close> key; for any other string it has \<^verbatim>\<open>text\<close> set
  to the string and no \<^verbatim>\<open>url\<close> key. The configuration holds credentials and
  transport settings, not \<^verbatim>\<open>url\<close> or \<^verbatim>\<open>text\<close>.
\<close>

theorem normalizeParams_bare_string:
  assumes "options this < length h"
    and "map_of (h ! options this) ''url'' = None"
    and "map_of (h ! options this) ''text'' = None"
  shows "(url_pattern s \<longrightarrow>
            map_of (result_obj (normalizeParams this h (Str s))) ''url'' = Some (JStr s) \<and>
            map_of (result_obj (normalizeParams this h (Str s))) ''text'' = None) \<and>
         (\<not> url_pattern s \<longrightarrow>
            map_of (result_obj (normalizeParams this h (Str s))) ''text'' = Some (JStr s) \<and>
            map_of (result_obj (normalizeParams this h (Str s))) ''url'' = None)"
  using assms
  by (simp add: result_obj_normalizeParams_Str map_of_extend_obj)

theorem normalizeParams_bare_string_witness:
  "options demo_client < length [demo_config] \<and>
   map_of ([demo_config] ! options demo_client) ''url'' = None \<and>
   map_of ([demo_config] ! options demo_client) ''text'' = None \<and>
   url_pattern ''https://example.com'' \<and>
   map_of (result_obj (normalizeParams demo_client [demo_config] (Str ''https://example.com'')))
     ''url'' = Some (JStr ''https://example.com'') \<and>
   map_of (result_obj (normalizeParams demo_client [demo_config] (Str ''https://example.com'')))
     ''text'' = None \<and>
   \<not> url_pattern ''hello world'' \<and>
   map_of (result_obj (normalizeParams demo_client [demo_config] (Str ''hello world'')))
     ''text'' = Some (JStr ''hello world'') \<and>
   map_of (result_obj (normalizeParams demo_client [demo_config] (Str ''hello world'')))
     ''url'' = None"
  using normalizeParams_bare_string [of demo_client "[demo_config]" "''https://example.com''"]
    normalizeParams_bare_string [of demo_client "[demo_config]" "''hello world''"]
  by (simp add: demo_config_def demo_client_def url_pattern_def)

text \<open>
  The pattern is compiled without the \<^verbatim>\<open>i\<close> flag: an upper-case scheme is not a URL
  to the normalizer, and the string is sent as text.
\<close>

theorem uppercase_scheme_counterexample:
  "map_of (result_obj (normalizeParams demo_client [demo_config] (Str ''HTTP://example.com'')))
     ''url'' = None \<and>
   map_of (result_obj (normalizeParams demo_client [demo_config] (Str ''HTTP://example.com'')))
     ''text'' = Some (JStr ''HTTP://example.com'')"
  by (simp add: demo_config_def demo_client_def url_pattern_def alloc_def util_extend_def
      extend_obj_def fill_in_def result_obj_def normalizeParams.simps)

text \<open>
  Claim C7, as the code has it. The URL test is case-sensitive: a string that begins with
  lower-case \<^verbatim>\<open>http://\<close> or \<^verbatim>\<open>https://\<close> is classified as a URL, with \<^verbatim>\<open>url\<close> set
  to the string and no \<^verbatim>\<open>text\<close>; every other string, so also one whose scheme is
  written in any other letter casing, is classified as text, with \<^verbatim>\<open>text\<close> set to the
  string and no \<^verbatim>\<open>url\<close>.
\<close>

theorem url_test_case_sensitive:
  assumes "options this < length h"
    and "map_of (h ! options this) ''url'' = None"
    and "map_of (h ! options this) ''text'' = None"
  shows "((\<exists>rest. s = ''http://'' @ rest \<or> s = ''https://'' @ rest) \<longrightarrow>
            map_of (result_obj (normalizeParams this h (Str s))) ''url'' = Some (JStr s) \<and>
            map_of (result_obj (normalizeParams this h (Str s))) ''text'' = None) \<and>
         (\<not> (\<exists>rest. s = ''http://'' @ rest \<or> s = ''https://'' @ rest) \<longrightarrow>
            map_of (result_obj (normalizeParams this h (Str s))) ''text'' = Some (JStr s) \<and>
            map_of (result_obj (normalizeParams this h (Str s))) ''url'' = None)"
proof -
  let ?out = "result_obj (normalizeParams this h (Str s))"
  have yes: "url_pattern s \<Longrightarrow>
               map_of ?out ''url'' = Some (JStr s) \<and> map_of ?out ''text'' = None"
    using assms by (simp add: result_obj_normalizeParams_Str map_of_extend_obj)
  have no: "\<not> url_pattern s \<Longrightarrow>
              map_of ?out ''text'' = Some (JStr s) \<and> map_of ?out ''url'' = None"
    using assms by (simp add: result_obj_normalizeParams_Str map_of_extend_obj)
  show ?thesis
    unfolding url_pattern_iff [symmetric] using yes no by blast
qed

theorem url_test_case_sensitive_witness:
  "options demo_client < length [demo_config] \<and>
   map_of ([demo_config] ! options demo_client) ''url'' = None \<and>
   map_of ([demo_config] ! options demo_client) ''text'' = None \<and>
   map_of (result_obj (normalizeParams demo_client [demo_config] (Str ''https://example.com'')))
     ''url'' = Some (JStr ''https://example.com'') \<and>
   map_of (result_obj (normalizeParams demo_client [demo_config] (Str ''https://example.com'')))
     ''text'' = None \<and>
   map_of (result_obj (normalizeParams demo_client [demo_config] (Str ''httpS://example.com'')))
     ''text'' = Some (JStr ''httpS://example.com'') \<and>
   map_of (result_obj (normalizeParams demo_client [demo_config] (Str ''httpS://example.com'')))
     ''url'' = None \<and>
   map_of (result_obj (normalizeParams demo_client [demo_config] (Str ''Http://example.com'')))
     ''text'' = Some (JStr ''Http://example.com'') \<and>
   map_of (result_obj (normalizeParams demo_client [demo_config] (Str ''Http://example.com'')))
     ''url'' = None"
  using url_test_case_sensitive [of demo_client "[demo_config]" "''https://example.com''"]
    url_test_case_sensitive [of demo_client "[demo_config]" "''httpS://example.com''"]
    url_test_case_sensitive [of demo_client "[demo_config]" "''Http://example.com''"]
  by (simp add: demo_config_def demo_client_def)


section \<open>The configuration object and the caller's object\<close>

text \<open>
  Claim C8. Every call to \<^verbatim>\<open>normalizeParams\<close>, and every call of an operation, leaves
  the object behind \<^verbatim>\<open>this._options\<close> as it was, also when the caller passes that
  very object as the argument.
\<close>

theorem options_never_modified:
  assumes "options this < length h" and "input_ok h i"
  shows "snd (normalizeParams this h i) ! options this = h ! options this \<and>
         (\<forall>op nw. fst (call op nw this h i) ! options this = h ! options this)"
  using assms by (simp add: normalizeParams_options_unchanged call_options_unchanged)

theorem options_never_modified_witness:
  "options demo_client < length [demo_config] \<and>
   input_ok [demo_config] (Ref 0) \<and>
   snd (normalizeParams demo_client [demo_config] (Ref 0)) ! options demo_client = demo_config \<and>
   fst (call Extract online demo_client [demo_config] (Ref 0)) ! options demo_client =
     demo_config \<and>
   fst (call Related offline demo_client [demo_config] (Str ''apple'')) ! options demo_client =
     demo_config"
  using options_never_modified [of demo_client "[demo_config]" "Ref 0"]
    options_never_modified [of demo_client "[demo_config]" "Str ''apple''"]
  by (simp add: demo_client_def del: call.simps)





section \<open>One outcome per call\<close>






section \<open>The catalog\<close>

text \<open>
  The constructor assigns twelve operations, not fourteen: \<open>all_operations\<close> lists every
  one of them.
\<close>

theorem fourteen_operations_counterexample:
  "length all_operations \<noteq> 14 \<and> set all_operations = UNIV"
proof -
  have "op \<in> set all_operations" for op
    by (cases op) (simp_all add: all_operations_def)
  then show ?thesis by (auto simp: all_operations_def)
qed

text \<open>
  Claim C9, as the code has it. The client exposes exactly twelve operations under twelve
  different names, and each is fully described by its catalog entry: the endpoint name it
  overrides, its requirement rule, the renaming of \<^verbatim>\<open>text\<close> for \<^verbatim>\<open>extract\<close> and
  \<^verbatim>\<open>related\<close>, and the precondition of \<^verbatim>\<open>summarize\<close>. The entries of
  \<^verbatim>\<open>sentiment\<close>, \<^verbatim>\<open>unsupervisedClassify\<close> and \<^verbatim>\<open>imageTags\<close> are the ones named.
\<close>

theorem twelve_operations_catalog:
  "length all_operations = 12 \<and>
   set all_operations = UNIV \<and>
   distinct (map method_name all_operations) \<and>
   (\<forall>op. call op = run_descr (catalog op)) \<and>
   catalog Sentiment =
     \<lparr>endpoint_name = ''sentiment'', rename_to = None, precondition = False,
      requirement_rule = AllOf [Alternatives [''text'', ''url'']]\<rparr> \<and>
   catalog UnsupervisedClassify =
     \<lparr>endpoint_name = ''classify/unsupervised'', rename_to = None, precondition = False,
      requirement_rule = AllOf [Alternatives [''text'', ''url''], Field ''class'']\<rparr> \<and>
   catalog ImageTags =
     \<lparr>endpoint_name = ''image-tags'', rename_to = None, precondition = False,
      requirement_rule = Field ''url''\<rparr>"
proof -
  have "op \<in> set all_operations" for op
    by (cases op) (simp_all add: all_operations_def)
  then have "set all_operations = UNIV" by auto
  moreover have "length all_operations = 12" by (simp add: all_operations_def)
  moreover have "distinct (map method_name all_operations)"
    by (simp add: all_operations_def)
  ultimately show ?thesis by (simp add: call_run_descr)
qed


section \<open>The precondition of summarize\<close>

lemma createAPIRequest_no_rule:
  "createAPIRequest nw h a (AllOf []) =
     [Dispatch (h ! a) (AllOf []), Network (build_request (h ! a)),
      respond nw (build_request (h ! a))]"
  by (simp add: createAPIRequest_def Let_def)

text \<open>
  Claim C1, as the code has it. The test is on truthiness, not on presence: when the
  normalized parameters have a truthy \<^verbatim>\<open>url\<close>, or a truthy \<^verbatim>\<open>text\<close> and a truthy
  \<^verbatim>\<open>title\<close>, the call enters the dispatcher, whose empty rule lets the request go out;
  otherwise the trace is one invocation of the callback with the precondition error, and
  neither the dispatcher nor the network is reached.
\<close>

theorem summarize_precondition_guard:
  "(let ps = result_obj (with_endpoint ''summarize'' this h i) in
      (truthy (get_prop ps ''url'') \<or>
         truthy (get_prop ps ''text'') \<and> truthy (get_prop ps ''title'') \<longrightarrow>
       snd (summarize nw this h i) =
         [Dispatch ps (AllOf []), Network (build_request ps),
          respond nw (build_request ps)]) \<and>
      (\<not> (truthy (get_prop ps ''url'') \<or>
            truthy (get_prop ps ''text'') \<and> truthy (get_prop ps ''title'')) \<longrightarrow>
       snd (summarize nw this h i) =
         [Callback (Some (Error ''You must either provide url, or pair of text and title''))
            None]))"
  by (auto simp: summarize_def summarize_precondition_def heap_get_def result_obj_def
      createAPIRequest_no_rule Let_def split: prod.splits)

theorem summarize_precondition_guard_witness:
  "list_ex is_dispatch
     (snd (summarize online demo_client
        [demo_config, [(''url'', JStr ''http://example.com'')]] (Ref 1))) \<and>
   list_ex is_network
     (snd (summarize online demo_client
        [demo_config, [(''url'', JStr ''http://example.com'')]] (Ref 1))) \<and>
   snd (summarize online demo_client [demo_config, [(''text'', JStr ''a'')]] (Ref 1)) =
     [Callback (Some (Error ''You must either provide url, or pair of text and title'')) None]"
  using summarize_precondition_guard
      [of demo_client "[demo_config, [(''url'', JStr ''http://example.com'')]]" "Ref 1" online]
    summarize_precondition_guard
      [of demo_client "[demo_config, [(''text'', JStr ''a'')]]" "Ref 1" online]
  by (simp add: with_endpoint_def normalizeParams.simps alloc_def util_extend_def
      extend_obj_def fill_in_def result_obj_def get_prop_def demo_config_def demo_client_def
      Let_def)

text \<open>
  A \<^verbatim>\<open>url\<close> field that is present but empty does not pass: the parameters contain
  \<^verbatim>\<open>url\<close>, and the call ends in the precondition error.
\<close>

theorem summarize_empty_url_counterexample:
  "map_of (result_obj (with_endpoint ''summarize'' demo_client
             [demo_config, [(''url'', JStr '''')]] (Ref 1))) ''url'' = Some (JStr '''') \<and>
   snd (summarize online demo_client [demo_config, [(''url'', JStr '''')]] (Ref 1)) =
     [Callback (Some (Error ''You must either provide url, or pair of text and title'')) None]"
  by (simp add: summarize_def summarize_precondition_def heap_get_def with_endpoint_def
      normalizeParams.simps alloc_def util_extend_def extend_obj_def fill_in_def result_obj_def
      get_prop_def demo_config_def demo_client_def)


section \<open>The renaming of extract and related\<close>

lemma map_of_renamed:
  assumes "field \<noteq> ''text''"
  shows "map_of (delete_prop (set_prop ob field v) ''text'') k =
           (if k = ''text'' then None else if k = field then Some v else map_of ob k)"
  using assms by (simp add: delete_prop_def set_prop_def delete_conv' update_conv')

lemma result_obj_rename_text:
  assumes "ps < length h"
  shows "result_obj (ps, rename_text field h ps) =
           (if truthy (get_prop (h ! ps) ''text'') \<and> \<not> truthy (get_prop (h ! ps) field)
            then delete_prop (set_prop (h ! ps) field (get_prop (h ! ps) ''text'')) ''text''
            else h ! ps)"
  using assms
  by (simp add: result_obj_def rename_text_def heap_get_def heap_set_def heap_delete_def)

lemma truthy_get_prop: "truthy (get_prop ob k) \<Longrightarrow> map_of ob k = Some (get_prop ob k)"
  by (cases "map_of ob k") (simp_all add: get_prop_def)

lemma renamed_params:
  assumes "field \<noteq> ''text''"
  shows "(let np = result_obj (with_endpoint name this h i);
              dp = result_obj (fst (with_endpoint name this h i),
                     rename_text field (snd (with_endpoint name this h i))
                       (fst (with_endpoint name this h i)))
          in (truthy (get_prop np ''text'') \<and> \<not> truthy (get_prop np field) \<longrightarrow>
                map_of dp field = map_of np ''text'' \<and> map_of dp ''text'' = None \<and>
                (\<forall>k. k \<noteq> field \<and> k \<noteq> ''text'' \<longrightarrow> map_of dp k = map_of np k)) \<and>
             (\<not> (truthy (get_prop np ''text'') \<and> \<not> truthy (get_prop np field)) \<longrightarrow>
                dp = np))"
proof -
  let ?w = "with_endpoint name this h i"
  have dp: "result_obj (fst ?w, rename_text field (snd ?w) (fst ?w)) =
              (if truthy (get_prop (snd ?w ! fst ?w) ''text'') \<and>
                  \<not> truthy (get_prop (snd ?w ! fst ?w) field)
               then delete_prop
                      (set_prop (snd ?w ! fst ?w) field (get_prop (snd ?w ! fst ?w) ''text''))
                      ''text''
               else snd ?w ! fst ?w)"
    by (rule result_obj_rename_text [OF with_endpoint_in_heap])
  have np: "result_obj ?w = snd ?w ! fst ?w" by (simp add: result_obj_def)
  show ?thesis
    unfolding Let_def dp np using assms by (auto simp: map_of_renamed truthy_get_prop)
qed

text \<open>
  Claim C6, as the code has it. The test is on truthiness: when the normalized parameters
  of \<^verbatim>\<open>extract\<close> have a truthy \<^verbatim>\<open>text\<close> and no truthy \<^verbatim>\<open>html\<close>, the parameters
  handed to the dispatcher have \<^verbatim>\<open>html\<close> equal to that text, no \<^verbatim>\<open>text\<close> key, and
  every other field as it was; otherwise they are handed over unchanged. The same holds
  for \<^verbatim>\<open>related\<close> with \<^verbatim>\<open>phrase\<close>.
\<close>

theorem text_renamed_when_truthy:
  "(let np = result_obj (with_endpoint ''extract'' this h i);
        dp = result_obj (extract_params this h i)
    in hd (snd (extract' nw this h i)) = Dispatch dp (AllOf [Alternatives [''url'', ''html'']]) \<and>
       (truthy (get_prop np ''text'') \<and> \<not> truthy (get_prop np ''html'') \<longrightarrow>
          map_of dp ''html'' = map_of np ''text'' \<and> map_of dp ''text'' = None \<and>
          (\<forall>k. k \<noteq> ''html'' \<and> k \<noteq> ''text'' \<longrightarrow> map_of dp k = map_of np k)) \<and>
       (\<not> (truthy (get_prop np ''text'') \<and> \<not> truthy (get_prop np ''html'')) \<longrightarrow>
          dp = np)) \<and>
   (let np = result_obj (with_endpoint ''related'' this h i);
        dp = result_obj (related_params this h i)
    in hd (snd (related nw this h i)) = Dispatch dp (Field ''phrase'') \<and>
       (truthy (get_prop np ''text'') \<and> \<not> truthy (get_prop np ''phrase'') \<longrightarrow>
          map_of dp ''phrase'' = map_of np ''text'' \<and> map_of dp ''text'' = None \<and>
          (\<forall>k. k \<noteq> ''phrase'' \<and> k \<noteq> ''text'' \<longrightarrow> map_of dp k = map_of np k)) \<and>
       (\<not> (truthy (get_prop np ''text'') \<and> \<not> truthy (get_prop np ''phrase'')) \<longrightarrow>
          dp = np))"
proof -
  have e: "extract_params this h i =
             (fst (with_endpoint ''extract'' this h i),
              rename_text ''html'' (snd (with_endpoint ''extract'' this h i))
                (fst (with_endpoint ''extract'' this h i)))"
    by (auto simp: extract_params_def split: prod.splits)
  have r: "related_params this h i =
             (fst (with_endpoint ''related'' this h i),
              rename_text ''phrase'' (snd (with_endpoint ''related'' this h i))
                (fst (with_endpoint ''related'' this h i)))"
    by (simp add: related_params_def split: prod.splits)
  have de: "hd (snd (extract' nw this h i)) =
              Dispatch (result_obj (extract_params this h i))
                (AllOf [Alternatives [''url'', ''html'']])"
    by (simp add: extract'_def createAPIRequest_def result_obj_def Let_def split: prod.splits)
  have dr: "hd (snd (related nw this h i)) =
              Dispatch (result_obj (related_params this h i)) (Field ''phrase'')"
    by (simp add: related_def createAPIRequest_def result_obj_def Let_def split: prod.splits)
  have "''html'' \<noteq> ''text''" and "''phrase'' \<noteq> ''text''" by simp_all
  then show ?thesis
    using renamed_params [of "''html''" "''extract''" this h i]
      renamed_params [of "''phrase''" "''related''" this h i]
    unfolding e r Let_def de dr by simp
qed

theorem text_renamed_when_truthy_witness:
  "map_of (result_obj (extract_params demo_client [demo_config, [(''text'', JStr ''a'')]] (Ref 1)))
     ''html'' = Some (JStr ''a'') \<and>
   map_of (result_obj (extract_params demo_client [demo_config, [(''text'', JStr ''a'')]] (Ref 1)))
     ''text'' = None \<and>
   map_of (result_obj (related_params demo_client [demo_config] (Str ''apple'')))
     ''phrase'' = Some (JStr ''apple'') \<and>
   map_of (result_obj (related_params demo_client [demo_config] (Str ''apple'')))
     ''text'' = None"
  using text_renamed_when_truthy
      [of demo_client "[demo_config, [(''text'', JStr ''a'')]]" "Ref 1" online]
    text_renamed_when_truthy [of demo_client "[demo_config]" "Str ''apple''" online]
  by (simp add: Let_def with_endpoint_def normalizeParams.simps url_pattern_def alloc_def
      util_extend_def extend_obj_def fill_in_def result_obj_def get_prop_def demo_config_def
      demo_client_def)

text \<open>
  A \<^verbatim>\<open>text\<close> field that is present but empty is not renamed: the parameters contain
  \<^verbatim>\<open>text\<close> and no \<^verbatim>\<open>html\<close> before and after.
\<close>

theorem empty_text_not_renamed_counterexample:
  "map_of (result_obj (with_endpoint ''extract'' demo_client
             [demo_config, [(''text'', JStr '''')]] (Ref 1))) ''text'' = Some (JStr '''') \<and>
   map_of (result_obj (with_endpoint ''extract'' demo_client
             [demo_config, [(''text'', JStr '''')]] (Ref 1))) ''html'' = None \<and>
   map_of (result_obj (extract_params demo_client
             [demo_config, [(''text'', JStr '''')]] (Ref 1))) ''html'' = None \<and>
   map_of (result_obj (extract_params demo_client
             [demo_config, [(''text'', JStr '''')]] (Ref 1))) ''text'' = Some (JStr '''')"
  by (simp add: extract_params_def rename_text_def heap_get_def with_endpoint_def
      normalizeParams.simps alloc_def util_extend_def extend_obj_def fill_in_def result_obj_def
      get_prop_def demo_config_def demo_client_def)


section \<open>Validation in the dispatcher\<close>

lemma map_of_in_serialize:
  assumes "map_of ps k = Some (JStr s)"
  shows "(k, JStr s) \<in> set (serialize ps)"
proof -
  from assms have "(k, JStr s) \<in> set ps" by (rule map_of_SomeD)
  moreover have "(k, JStr s) \<in> set (form_entries (k, JStr s))" by simp
  ultimately show ?thesis unfolding serialize_def by (auto intro!: bexI [of _ "(k, JStr s)"])
qed

text \<open>
  Claim C4. Under the rule \<^verbatim>\<open>[['text', 'url']]\<close>, parameters with neither a non-empty
  \<^verbatim>\<open>text\<close> nor a non-empty \<^verbatim>\<open>url\<close> make the dispatcher call back once, right after
  it is entered, with an error that names \<^verbatim>\<open>text\<close> and \<^verbatim>\<open>url\<close>, and no request
  goes to the network; parameters whose \<^verbatim>\<open>text\<close> is \<^verbatim>\<open>hello\<close> pass validation, and
  the request that goes out has the form entry \<^verbatim>\<open>text=hello\<close>.
\<close>

theorem dispatch_text_or_url:
  "(\<not> present (h ! a) ''text'' \<and> \<not> present (h ! a) ''url'' \<longrightarrow>
      createAPIRequest nw h a (AllOf [Alternatives [''text'', ''url'']]) =
        [Dispatch (h ! a) (AllOf [Alternatives [''text'', ''url'']]),
         Callback (Some (ValidationError [''text'', ''url''])) None]) \<and>
   (map_of (h ! a) ''text'' = Some (JStr ''hello'') \<longrightarrow>
      createAPIRequest nw h a (AllOf [Alternatives [''text'', ''url'']]) =
        [Dispatch (h ! a) (AllOf [Alternatives [''text'', ''url'']]),
         Network (build_request (h ! a)),
         respond nw (build_request (h ! a))] \<and>
      (''text'', JStr ''hello'') \<in> set (req_form (build_request (h ! a))))"
proof -
  have "(''text'', JStr ''hello'') \<in> set (req_form (build_request (h ! a)))"
    if "map_of (h ! a) ''text'' = Some (JStr ''hello'')"
    using map_of_in_serialize [OF that] by (simp add: build_request_def)
  then show ?thesis
    by (simp add: createAPIRequest_def Let_def present_def)
qed

theorem dispatch_text_or_url_witness:
  "createAPIRequest offline [[]] 0 (AllOf [Alternatives [''text'', ''url'']]) =
     [Dispatch [] (AllOf [Alternatives [''text'', ''url'']]),
      Callback (Some (ValidationError [''text'', ''url''])) None] \<and>
   createAPIRequest offline [[(''text'', JStr ''hello'')]] 0
       (AllOf [Alternatives [''text'', ''url'']]) =
     [Dispatch [(''text'', JStr ''hello'')] (AllOf [Alternatives [''text'', ''url'']]),
      Network (build_request [(''text'', JStr ''hello'')]),
      Callback (Some (TransportError ''ECONNREFUSED'')) None] \<and>
   req_form (build_request [(''text'', JStr ''hello'')]) = [(''text'', JStr ''hello'')]"
  using dispatch_text_or_url [of "[[]]" 0 offline]
    dispatch_text_or_url [of "[[(''text'', JStr ''hello'')]]" 0 offline]
  by (simp add: present_def respond_def offline_def build_request_def serialize_def)

end

